theory Spec2Isabelle
  imports Main
begin

section \<open>The drag-and-drop sort directive (src/draggable.directive.ts)\<close>

text \<open>
  The directive \<open>appDraggableDirective\<close> is a class with private fields, four inputs, one
  output emitter and three pointer handlers. It is embedded as a record of its fields
  together with the part of the document it writes to: the element children of the host
  element's parent (the sibling list), the host element's inline style and its class list.
  Every handler is a function from the state before the event to the state after it.

  What a handler reads from the browser at the time of the event (scroll offsets, layout
  offsets, the element under the cursor, the result of the handle query) is an argument of
  the handler, the record \<open>env\<close>. Numbers are integers.
\<close>

subsection \<open>Document nodes, views and templates\<close>

text \<open>
  An element is either one of the list's own elements or the root element of an embedded
  view created from the placeholder template.
\<close>

datatype node = Item nat | Placeholder nat

fun isPlaceholder :: "node \<Rightarrow> bool" where
  "isPlaceholder (Placeholder k) = True"
| "isPlaceholder (Item i) = False"

text \<open>
  \<open>TemplateRef\<close>: the source only ever looks at \<open>rootNodes[0]\<close> of the view a template
  creates, so a template is modelled by whether its view has a root element at all.
  \<open>EmbeddedViewRef\<close>: the list of its root nodes.
\<close>

record template =
  hasRootElement :: bool

record view =
  rootNodes :: "node list"

text \<open>
  The two effects of the framework on the document that the source relies on but does not
  show are parameters of the model, so that every result below holds whichever way they
  are read: whether \<open>createEmbeddedView\<close> attaches the new root nodes to the document
  (after the host element, where the view container is anchored) and whether
  \<open>destroy()\<close> on a view detaches its root nodes. In Angular both are the case.
\<close>

record host =
  attachOnCreate :: bool
  detachOnDestroy :: bool

definition angular :: host where
  "angular = \<lparr>attachOnCreate = True, detachOnDestroy = True\<rparr>"

subsection \<open>The directive's state\<close>

datatype axis = AxisX | AxisY

datatype css_value = Px int | Keyword string | ComputedStyleObject

text \<open>\<open>ListDragReordering\<close>; \<open>None\<close> in the second field is JavaScript's \<open>undefined\<close>.\<close>

record ListDragReordering =
  eventOldIndex :: int
  eventNewIndex :: "int option"

record state =
  isDragging :: bool
  initialX :: int
  initialY :: int
  initialWidth :: css_value
  prevX :: int
  prevY :: int
  rowPlaceholderViewRef :: "view option"
  rowPlaceholderElement :: "node option"
  oldIndex :: int
  mouseMoveListener :: bool
  blockedAxis :: "axis option"
  zIndex :: "int option"
  dragBy :: "string option"
  rowPlaceholder :: "template option"
  changeCurrentElIndex :: "ListDragReordering list"
  nativeElement :: node
  children :: "node list"
  style :: "string \<rightharpoonup> css_value"
  classes :: "string set"
  nextViewId :: nat

text \<open>
  \<open>mouseMoveListener\<close> is \<open>True\<close> while the field holds the bound function and \<open>False\<close> once it
  is \<open>undefined\<close>. \<open>changeCurrentElIndex\<close> is the log of the values emitted on the output, oldest
  first. \<open>nativeElement\<close> is \<open>elementRef.nativeElement\<close>; \<open>children\<close> are the element children of
  its parent, in document order; \<open>style\<close> and \<open>classes\<close> are the host element's inline style and
  class list. \<open>nextViewId\<close> numbers the views created so far, so that every new view has
  a new root element.
\<close>

record mouse_event =
  clientX :: int
  clientY :: int

text \<open>
  What \<open>querySelector\<close> does with the selector built from \<open>dragBy\<close>: it throws a
  \<open>SyntaxError\<close> when the string is not a valid selector, it finds no handle, or it finds
  one, which contains the event's target or not.
\<close>

datatype handle_query = SelectorError | NoHandle | Handle bool

record env =
  scrollX :: int
  scrollY :: int
  offsetLeft :: int
  offsetTop :: int
  elementFromPoint :: "node option"
  dragHandler :: handle_query
  elementOldIndex :: "int option"

text \<open>
  \<open>elementFromPoint\<close> is the result of \<open>document.elementFromPoint(clientX, clientY)\<close> when it
  is an \<open>HTMLElement\<close>, otherwise \<open>None\<close>. \<open>dragHandler\<close> is the outcome of the handle
  query of lines 64 to 66, which is only made when \<open>dragBy\<close> is set. \<open>elementOldIndex\<close> is the property \<open>oldIndex\<close> of the host
  DOM element, which the directive reads on pointer-up and never writes; on a plain
  element it is \<open>undefined\<close>.
\<close>

subsection \<open>Document operations\<close>

text \<open>\<open>Array.prototype.indexOf\<close>: the first position of the element, or -1.\<close>

fun indexOf :: "'a list \<Rightarrow> 'a \<Rightarrow> int" where
  "indexOf [] a = -1"
| "indexOf (x # xs) a = (if x = a then 0 else (let i = indexOf xs a in if i < 0 then -1 else i + 1))"

text \<open>\<open>children[index]\<close>: \<open>undefined\<close> outside the collection.\<close>

definition item :: "'a list \<Rightarrow> int \<Rightarrow> 'a option" where
  "item xs i = (if 0 \<le> i \<and> i < int (length xs) then Some (xs ! nat i) else None)"

text \<open>The next sibling of a child, \<open>None\<close> for the last child.\<close>

fun nextSibling :: "'a \<Rightarrow> 'a list \<Rightarrow> 'a option" where
  "nextSibling a [] = None"
| "nextSibling a [x] = None"
| "nextSibling a (x # y # xs) = (if x = a then Some y else nextSibling a (y # xs))"

fun insertAfter :: "'a \<Rightarrow> 'a list \<Rightarrow> 'a list \<Rightarrow> 'a list" where
  "insertAfter a ns [] = ns"
| "insertAfter a ns (x # xs) = (if x = a then x # ns @ xs else x # insertAfter a ns xs)"

text \<open>
  Insertion before a reference child. The source only passes references taken from the
  parent's children, so the case of a reference that is not a child (where the DOM throws)
  does not arise; the function appends there.
\<close>

fun insertBeforeRef :: "'a \<Rightarrow> 'a \<Rightarrow> 'a list \<Rightarrow> 'a list" where
  "insertBeforeRef n r [] = [n]"
| "insertBeforeRef n r (x # xs) = (if x = r then n # x # xs else x # insertBeforeRef n r xs)"

text \<open>
  \<open>parent.appendChild(n)\<close> and \<open>parent.insertBefore(n, ref)\<close> on the list of children. A node
  that is already a child is moved; a missing reference (\<open>null\<close> or \<open>undefined\<close>) appends;
  inserting a node before itself leaves it where it is.
\<close>

definition appendChild :: "node \<Rightarrow> node list \<Rightarrow> node list" where
  "appendChild n xs = removeAll n xs @ [n]"

definition insertBefore :: "node \<Rightarrow> node option \<Rightarrow> node list \<Rightarrow> node list" where
  "insertBefore n ref xs =
     (case ref of
        None \<Rightarrow> removeAll n xs @ [n]
      | Some r \<Rightarrow> if r = n then xs else insertBeforeRef n r (removeAll n xs))"

definition setStyle :: "string \<Rightarrow> css_value \<Rightarrow> state \<Rightarrow> state" where
  "setStyle name v s = s\<lparr>style := (style s)(name \<mapsto> v)\<rparr>"

text \<open>\<open>viewContainerRef.createEmbeddedView(tpl)\<close> and \<open>viewRef.destroy()\<close>.\<close>

definition createEmbeddedView :: "host \<Rightarrow> template \<Rightarrow> state \<Rightarrow> view \<times> state" where
  "createEmbeddedView h tpl s =
     (let roots = (if hasRootElement tpl then [Placeholder (nextViewId s)] else []);
          s1 = s\<lparr>nextViewId := Suc (nextViewId s)\<rparr>
      in (\<lparr>rootNodes = roots\<rparr>,
          if attachOnCreate h
          then s1\<lparr>children := insertAfter (nativeElement s1) roots (children s1)\<rparr>
          else s1))"

definition destroy :: "host \<Rightarrow> view \<Rightarrow> state \<Rightarrow> state" where
  "destroy h v s =
     (if detachOnDestroy h
      then s\<lparr>children := filter (\<lambda>c. c \<notin> set (rootNodes v)) (children s)\<rparr>
      else s)"

text \<open>\<open>rootNodes[0]\<close>.\<close>

definition firstRoot :: "view \<Rightarrow> node option" where
  "firstRoot v = (case rootNodes v of [] \<Rightarrow> None | n # ns \<Rightarrow> Some n)"

subsection \<open>The private methods\<close>

definition removeRowPlaceholderElement :: "host \<Rightarrow> state \<Rightarrow> state" where
  "removeRowPlaceholderElement h s =
     (let s1 = (case rowPlaceholderViewRef s of
                  None \<Rightarrow> s
                | Some v \<Rightarrow> (destroy h v s)\<lparr>rowPlaceholderViewRef := None\<rparr>)
      in case rowPlaceholderElement s1 of
           None \<Rightarrow> s1
         | Some p \<Rightarrow>
             if p \<in> set (children s1)
             then s1\<lparr>children := removeAll p (children s1), rowPlaceholderElement := None\<rparr>
             else s1)"

text \<open>
  An exception leaves the fields as they were when it was thrown, so a handler that can
  throw returns the state it reached either way.
\<close>

datatype error = TypeError | SyntaxError

datatype outcome = Done state | Threw error state

fun stateOf :: "outcome \<Rightarrow> state" where
  "stateOf (Done s) = s"
| "stateOf (Threw e s) = s"

fun thrown :: "outcome \<Rightarrow> error option" where
  "thrown (Done s) = None"
| "thrown (Threw e s) = Some e"

text \<open>
  \<open>createRowPlaceholderElement\<close> passes \<open>rootNodes[0]\<close> to \<open>insertBefore\<close> unchecked: for a
  view without a root element the DOM call is given \<open>undefined\<close> for the new child and
  throws a \<open>TypeError\<close>.
\<close>

definition createRowPlaceholderElement :: "host \<Rightarrow> template \<Rightarrow> state \<Rightarrow> outcome" where
  "createRowPlaceholderElement h tpl s =
     (let s1 = removeRowPlaceholderElement h s;
          (v, s2) = createEmbeddedView h tpl s1;
          s3 = s2\<lparr>rowPlaceholderViewRef := Some v\<rparr>;
          s4 = s3\<lparr>rowPlaceholderElement := firstRoot v\<rparr>
      in case rowPlaceholderElement s4 of
           None \<Rightarrow> Threw TypeError s4
         | Some p \<Rightarrow>
             Done (s4\<lparr>children :=
               insertBefore p (nextSibling (nativeElement s4) (children s4)) (children s4)\<rparr>))"

definition changeRowPlaceholderIndex :: "host \<Rightarrow> template \<Rightarrow> int \<Rightarrow> state \<Rightarrow> state" where
  "changeRowPlaceholderIndex h tpl index s =
     (let s1 = removeRowPlaceholderElement h s;
          (v, s2) = createEmbeddedView h tpl s1;
          s3 = s2\<lparr>rowPlaceholderViewRef := Some v\<rparr>;
          s4 = s3\<lparr>rowPlaceholderElement := firstRoot v\<rparr>
      in case rowPlaceholderElement s4 of
           None \<Rightarrow> s4
         | Some p \<Rightarrow>
             (let childCount = int (length (children s4)) in
              if index = childCount
              then s4\<lparr>children := appendChild p (children s4)\<rparr>
              else s4\<lparr>children := insertBefore p (item (children s4) index) (children s4)\<rparr>))"

definition cleanupListeners :: "state \<Rightarrow> state" where
  "cleanupListeners s = (if mouseMoveListener s then s\<lparr>mouseMoveListener := False\<rparr> else s)"

subsection \<open>Constructor and lifecycle\<close>

text \<open>
  The constructor, for a host element \<open>el\<close> whose parent has the element children \<open>cs\<close> and
  whose inline style and class list are \<open>st\<close> and \<open>cl\<close>. The inputs are unbound.
\<close>

definition newDirective ::
  "env \<Rightarrow> node \<Rightarrow> node list \<Rightarrow> (string \<rightharpoonup> css_value) \<Rightarrow> string set \<Rightarrow> state" where
  "newDirective e el cs st cl =
     \<lparr>isDragging = False,
      initialX = offsetLeft e,
      initialY = offsetTop e,
      initialWidth = ComputedStyleObject,
      prevX = 0,
      prevY = 0,
      rowPlaceholderViewRef = None,
      rowPlaceholderElement = None,
      oldIndex = -1,
      mouseMoveListener = True,
      blockedAxis = None,
      zIndex = None,
      dragBy = None,
      rowPlaceholder = None,
      changeCurrentElIndex = [],
      nativeElement = el,
      children = cs,
      style = st,
      classes = cl,
      nextViewId = 0\<rparr>"

definition ngOnDestroy :: "state \<Rightarrow> state" where
  "ngOnDestroy s = cleanupListeners s"

subsection \<open>The pointer handlers\<close>

text \<open>A string input is falsy when it is unbound or empty.\<close>

definition falsy :: "string option \<Rightarrow> bool" where
  "falsy d = (case d of None \<Rightarrow> True | Some str \<Rightarrow> str = [])"

text \<open>
  The handle query of lines 63 to 67 throws when \<open>dragBy\<close> is set and is not a valid
  selector; nothing has been assigned by then.
\<close>

definition queryThrows :: "state \<Rightarrow> env \<Rightarrow> bool" where
  "queryThrows s e = (if falsy (dragBy s) then False else dragHandler e = SelectorError)"

text \<open>
  The condition of lines 70 to 73: the press is on the drag handle, or on the element when
  no handle is specified.
\<close>

definition pressStartsDrag :: "state \<Rightarrow> env \<Rightarrow> bool" where
  "pressStartsDrag s e =
     (let handler = (if falsy (dragBy s) then NoHandle else dragHandler e) in
      falsy (dragBy s) \<or>
      (case handler of SelectorError \<Rightarrow> False | NoHandle \<Rightarrow> False | Handle inside \<Rightarrow> inside))"

definition onMouseDown :: "host \<Rightarrow> env \<Rightarrow> mouse_event \<Rightarrow> state \<Rightarrow> outcome" where
  "onMouseDown h e event s =
     (if queryThrows s e then Threw SyntaxError s
      else if pressStartsDrag s e
      then
        (let s1 = s\<lparr>style := Map.empty\<rparr>;
             s2 = s1\<lparr>classes := classes s1 - {''app-draggable-dragging''}\<rparr>;
             s3 = s2\<lparr>isDragging := True\<rparr>;
             s4 = s3\<lparr>initialX := clientX event + scrollX e\<rparr>;
             s5 = s4\<lparr>initialY := clientY event + scrollY e\<rparr>;
             s6 = s5\<lparr>prevX := initialX s5\<rparr>;
             s7 = s6\<lparr>prevY := initialY s6\<rparr>;
             s8 = setStyle ''width'' (initialWidth s7) s7;
             s9 = setStyle ''position'' (Keyword ''fixed'') s8;
             s10 = setStyle ''z-index'' (Keyword ''11'') s9;
             s11 = setStyle ''cursor'' (Keyword ''grabbing'') s10;
             s12 = setStyle ''transition'' (Keyword ''top left .15s ease-in'') s11;
             s13 = setStyle ''user-select'' (Keyword ''none'') s12;
             s14 = s13\<lparr>classes := insert ''app-draggable-dragging'' (classes s13)\<rparr>
         in case rowPlaceholder s14 of
              None \<Rightarrow> Done s14
            | Some tpl \<Rightarrow> createRowPlaceholderElement h tpl s14)
      else Done s)"

definition onMouseUp :: "host \<Rightarrow> env \<Rightarrow> state \<Rightarrow> state" where
  "onMouseUp h e s =
     (if isDragging s
      then
        (let s1 = s\<lparr>isDragging := False\<rparr>;
             s2 = cleanupListeners s1;
             s3 = s2\<lparr>style := Map.empty\<rparr>;
             s4 = s3\<lparr>classes := classes s3 - {''app-draggable-dragging''}\<rparr>;
             s5 = s4\<lparr>initialX := offsetLeft e\<rparr>;
             s6 = s5\<lparr>initialY := offsetTop e\<rparr>;
             s7 = removeRowPlaceholderElement h s6;
             s8 = removeRowPlaceholderElement h s7
         in s8\<lparr>changeCurrentElIndex := changeCurrentElIndex s8 @
              [\<lparr>eventOldIndex = oldIndex s8, eventNewIndex = elementOldIndex e\<rparr>]\<rparr>)
      else s)"

text \<open>
  The index computation of \<open>onMouseMove\<close> (lines 190 to 216): \<open>siblingItems\<close> is the array
  \<open>items\<close>, the parent's children without the placeholder element; \<open>targetIndex\<close> is the value
  of \<open>newIndex\<close> that is passed to \<open>changeRowPlaceholderIndex\<close> and stored in \<open>oldIndex\<close>, for
  the element \<open>target\<close> under the cursor, \<open>up\<close> telling whether \<open>event.clientY < this.prevY\<close>.
\<close>

definition siblingItems :: "state \<Rightarrow> node list" where
  "siblingItems s = filter (\<lambda>child. Some child \<noteq> rowPlaceholderElement s) (children s)"

definition targetIndex :: "node list \<Rightarrow> int \<Rightarrow> node \<Rightarrow> bool \<Rightarrow> int" where
  "targetIndex items old target up =
     (let itemsNumber = int (length items);
          i0 = indexOf items target + 1;
          i1 = (if i0 < 0 then 0 else i0);
          i2 = (if i1 > old then (let d = i1 - 1 in if d < 0 then 0 else d) else i1);
          i3 = (if i2 < old
                then (let u = i2 + 1 in if u > itemsNumber then itemsNumber - 1 else u)
                else i2)
      in if i3 = old \<and> up then i3 - 1 else i3)"

definition onMouseMove :: "host \<Rightarrow> env \<Rightarrow> mouse_event \<Rightarrow> state \<Rightarrow> state" where
  "onMouseMove h e event s =
     (if isDragging s
      then
        (let offsetX = clientX event - prevX s;
             offsetY = clientY event - prevY s;
             newLeft = offsetLeft e + offsetX;
             newTop = offsetTop e + offsetY;
             s1 = (if blockedAxis s \<noteq> Some AxisX then setStyle ''left'' (Px newLeft) s else s);
             s2 = (if blockedAxis s1 \<noteq> Some AxisY
                   then
                     (let s1a = setStyle ''top'' (Px newTop) s1 in
                      case elementFromPoint e of
                        None \<Rightarrow> s1a
                      | Some target \<Rightarrow>
                          (let newIndex = targetIndex (siblingItems s1a) (oldIndex s1a) target
                                            (clientY event < prevY s1a);
                               s1b = (case rowPlaceholder s1a of
                                        None \<Rightarrow> s1a
                                      | Some tpl \<Rightarrow> changeRowPlaceholderIndex h tpl newIndex s1a)
                           in s1b\<lparr>oldIndex := newIndex\<rparr>))
                   else s1);
             s3 = s2\<lparr>prevX := clientX event\<rparr>
         in s3\<lparr>prevY := clientY event\<rparr>)
      else s)"

subsection \<open>Event dispatch\<close>

text \<open>
  The three handlers are registered with \<open>@HostListener\<close>: the framework subscribes them
  when the directive is created and unsubscribes them when it is torn down, calling
  \<open>ngOnDestroy\<close> then. \<open>listening\<close> tells whether the subscriptions are in place;
  \<open>uncaught\<close> collects what the handlers threw.
\<close>

datatype event = MouseDown env mouse_event | MouseMove env mouse_event | MouseUp env | Teardown

record component =
  listening :: bool
  directive :: state
  uncaught :: "error list"

definition dispatch :: "host \<Rightarrow> event \<Rightarrow> component \<Rightarrow> component" where
  "dispatch h ev c =
     (if listening c
      then (case ev of
              MouseDown e event \<Rightarrow>
                (let r = onMouseDown h e event (directive c)
                 in c\<lparr>directive := stateOf r,
                      uncaught := uncaught c @ (case thrown r of None \<Rightarrow> [] | Some x \<Rightarrow> [x])\<rparr>)
            | MouseMove e event \<Rightarrow> c\<lparr>directive := onMouseMove h e event (directive c)\<rparr>
            | MouseUp e \<Rightarrow> c\<lparr>directive := onMouseUp h e (directive c)\<rparr>
            | Teardown \<Rightarrow> c\<lparr>listening := False, directive := ngOnDestroy (directive c)\<rparr>)
      else c)"

fun run :: "host \<Rightarrow> event list \<Rightarrow> component \<Rightarrow> component" where
  "run h [] c = c"
| "run h (ev # evs) c = run h evs (dispatch h ev c)"

fun isMove :: "event \<Rightarrow> bool" where
  "isMove (MouseMove e event) = True"
| "isMove ev = False"

subsection \<open>Notions used in the properties\<close>

text \<open>A sibling list without placeholder elements.\<close>

definition placeholderFree :: "node list \<Rightarrow> bool" where
  "placeholderFree cs = list_all (\<lambda>n. \<not> isPlaceholder n) cs"

text \<open>
  Every placeholder element among the siblings is the one the directive refers to in
  \<open>rowPlaceholderElement\<close>.
\<close>

definition placeholderTracked :: "state \<Rightarrow> bool" where
  "placeholderTracked s =
     list_all (\<lambda>n. isPlaceholder n \<longrightarrow> rowPlaceholderElement s = Some n) (children s)"

text \<open>
  The events that can occur between the press that starts a session and the pointer-up
  that ends it: pointer-moves and further presses.
\<close>

fun duringSession :: "event \<Rightarrow> bool" where
  "duringSession (MouseDown e event) = True"
| "duringSession (MouseMove e event) = True"
| "duringSession ev = False"

text \<open>The events other than a press: they cannot start a session.\<close>

fun noPress :: "event \<Rightarrow> bool" where
  "noPress (MouseDown e event) = False"
| "noPress ev = True"

text \<open>
  A pointer-move that does not reach the index computation: the vertical axis is blocked,
  or no element is under the cursor.
\<close>

fun skipsIndex :: "axis option \<Rightarrow> event \<Rightarrow> bool" where
  "skipsIndex a (MouseMove e event) = (a = Some AxisY \<or> elementFromPoint e = None)"
| "skipsIndex a ev = False"

text \<open>The style property that a blocked axis stands for.\<close>

fun axisProperty :: "axis \<Rightarrow> string" where
  "axisProperty AxisX = ''left''"
| "axisProperty AxisY = ''top''"

text \<open>
  The fields that make up the drag behaviour apart from the placeholder: everything but the
  view reference, the placeholder element, the sibling list and the view counter.
\<close>

definition dragFields ::
  "state \<Rightarrow> (bool \<times> int \<times> int \<times> int \<times> int \<times> int) \<times> bool \<times>
     ListDragReordering list \<times> (string \<rightharpoonup> css_value) \<times> string set" where
  "dragFields s =
     ((isDragging s, initialX s, initialY s, prevX s, prevY s, oldIndex s),
      mouseMoveListener s, changeCurrentElIndex s, style s, classes s)"

text \<open>
  The fields as lines 75 to 116 of \<open>onMouseDown\<close> leave them, before the placeholder is
  created.
\<close>

definition pressed :: "env \<Rightarrow> mouse_event \<Rightarrow> state \<Rightarrow> state" where
  "pressed e event s =
     s\<lparr>isDragging := True,
       initialX := clientX event + scrollX e,
       initialY := clientY event + scrollY e,
       prevX := clientX event + scrollX e,
       prevY := clientY event + scrollY e,
       style := [''width'' \<mapsto> initialWidth s, ''position'' \<mapsto> Keyword ''fixed'',
                 ''z-index'' \<mapsto> Keyword ''11'', ''cursor'' \<mapsto> Keyword ''grabbing'',
                 ''transition'' \<mapsto> Keyword ''top left .15s ease-in'',
                 ''user-select'' \<mapsto> Keyword ''none''],
       classes := insert ''app-draggable-dragging'' (classes s)\<rparr>"

text \<open>The siblings that are not placeholder elements, in document order.\<close>

definition nonPlaceholders :: "node list \<Rightarrow> node list" where
  "nonPlaceholders cs = filter (\<lambda>n. \<not> isPlaceholder n) cs"

text \<open>
  What the directive holds of placeholders is consistent: a placeholder element among the
  siblings is the one it refers to, and its element reference and the root nodes of its
  view are placeholder elements.
\<close>

definition placeholderOwned :: "state \<Rightarrow> bool" where
  "placeholderOwned s =
     (placeholderTracked s \<and>
      (case rowPlaceholderElement s of None \<Rightarrow> True | Some p \<Rightarrow> isPlaceholder p) \<and>
      (case rowPlaceholderViewRef s of
         None \<Rightarrow> True
       | Some v \<Rightarrow> list_all isPlaceholder (rootNodes v)))"

text \<open>
  \<open>mirrors s s'\<close> relates a state \<open>s\<close> of a directive without a template, view and
  placeholder element to a state \<open>s'\<close> of the same directive with placeholders: the drag
  fields and the inputs other than the template agree, and the siblings of \<open>s'\<close> are
  those of \<open>s\<close> with placeholder elements in between.
\<close>

definition mirrors :: "state \<Rightarrow> state \<Rightarrow> bool" where
  "mirrors s s' =
     (dragFields s' = dragFields s \<and> blockedAxis s' = blockedAxis s \<and>
      dragBy s' = dragBy s \<and> initialWidth s' = initialWidth s \<and>
      rowPlaceholder s = None \<and> rowPlaceholderViewRef s = None \<and>
      rowPlaceholderElement s = None \<and> placeholderFree (children s) \<and>
      nonPlaceholders (children s') = children s \<and> placeholderOwned s')"

text \<open>An event whose handle query, if it makes one, does not throw.\<close>

fun queryReturns :: "state \<Rightarrow> event \<Rightarrow> bool" where
  "queryReturns s (MouseDown e event) = (\<not> queryThrows s e)"
| "queryReturns s ev = True"

subsection \<open>Example inputs\<close>

text \<open>
  An unscrolled window, a host element laid out at the origin, nothing under the cursor,
  no handle, and a host element without an \<open>oldIndex\<close> property.
\<close>

definition plainEnv :: env where
  "plainEnv = \<lparr>scrollX = 0, scrollY = 0, offsetLeft = 0, offsetTop = 0,
               elementFromPoint = None, dragHandler = NoHandle, elementOldIndex = None\<rparr>"

definition over :: "node \<Rightarrow> env" where
  "over n = plainEnv\<lparr>elementFromPoint := Some n\<rparr>"

definition at :: "int \<Rightarrow> int \<Rightarrow> mouse_event" where
  "at x y = \<lparr>clientX = x, clientY = y\<rparr>"

definition rowTemplate :: template where
  "rowTemplate = \<lparr>hasRootElement = True\<rparr>"

text \<open>
  A list of three elements; the directive sits on the middle one (index 1) and has a
  placeholder template.
\<close>

definition middleOfThree :: state where
  "middleOfThree =
     (newDirective plainEnv (Item 1) [Item 0, Item 1, Item 2] Map.empty {})
       \<lparr>rowPlaceholder := Some rowTemplate\<rparr>"

definition listed :: "state \<Rightarrow> component" where
  "listed s = \<lparr>listening = True, directive = s, uncaught = []\<rparr>"

section \<open>Properties\<close>

subsection \<open>What each method leaves alone\<close>

lemma destroy_frame [simp]:
  "isDragging (destroy h v s) = isDragging s"
  "oldIndex (destroy h v s) = oldIndex s"
  "changeCurrentElIndex (destroy h v s) = changeCurrentElIndex s"
  "style (destroy h v s) = style s"
  "classes (destroy h v s) = classes s"
  "prevX (destroy h v s) = prevX s"
  "prevY (destroy h v s) = prevY s"
  "initialX (destroy h v s) = initialX s"
  "initialY (destroy h v s) = initialY s"
  "initialWidth (destroy h v s) = initialWidth s"
  "mouseMoveListener (destroy h v s) = mouseMoveListener s"
  "blockedAxis (destroy h v s) = blockedAxis s"
  "dragBy (destroy h v s) = dragBy s"
  "rowPlaceholder (destroy h v s) = rowPlaceholder s"
  "nativeElement (destroy h v s) = nativeElement s"
  "rowPlaceholderViewRef (destroy h v s) = rowPlaceholderViewRef s"
  "rowPlaceholderElement (destroy h v s) = rowPlaceholderElement s"
  by (simp_all add: destroy_def)

lemma remove_frame [simp]:
  "isDragging (removeRowPlaceholderElement h s) = isDragging s"
  "oldIndex (removeRowPlaceholderElement h s) = oldIndex s"
  "changeCurrentElIndex (removeRowPlaceholderElement h s) = changeCurrentElIndex s"
  "style (removeRowPlaceholderElement h s) = style s"
  "classes (removeRowPlaceholderElement h s) = classes s"
  "prevX (removeRowPlaceholderElement h s) = prevX s"
  "prevY (removeRowPlaceholderElement h s) = prevY s"
  "initialX (removeRowPlaceholderElement h s) = initialX s"
  "initialY (removeRowPlaceholderElement h s) = initialY s"
  "initialWidth (removeRowPlaceholderElement h s) = initialWidth s"
  "mouseMoveListener (removeRowPlaceholderElement h s) = mouseMoveListener s"
  "blockedAxis (removeRowPlaceholderElement h s) = blockedAxis s"
  "dragBy (removeRowPlaceholderElement h s) = dragBy s"
  "rowPlaceholder (removeRowPlaceholderElement h s) = rowPlaceholder s"
  "nativeElement (removeRowPlaceholderElement h s) = nativeElement s"
  by (simp_all add: removeRowPlaceholderElement_def Let_def split: option.splits)

lemma remove_viewRef [simp]:
  "rowPlaceholderViewRef (removeRowPlaceholderElement h s) = None"
  by (simp add: removeRowPlaceholderElement_def Let_def split: option.splits)

lemma remove_element_detached:
  "rowPlaceholderElement (removeRowPlaceholderElement h s) = Some p \<Longrightarrow>
   p \<notin> set (children (removeRowPlaceholderElement h s))"
  by (auto simp: removeRowPlaceholderElement_def Let_def split: option.splits if_splits)

lemma remove_fixed:
  "rowPlaceholderViewRef s = None \<Longrightarrow>
   (case rowPlaceholderElement s of None \<Rightarrow> True | Some p \<Rightarrow> p \<notin> set (children s)) \<Longrightarrow>
   removeRowPlaceholderElement h s = s"
  by (simp add: removeRowPlaceholderElement_def split: option.splits)

lemma remove_idem:
  "removeRowPlaceholderElement h (removeRowPlaceholderElement h s) = removeRowPlaceholderElement h s"
  by (rule remove_fixed) (auto split: option.splits dest: remove_element_detached)

lemma create_view_frame [simp]:
  "isDragging (snd (createEmbeddedView h tpl s)) = isDragging s"
  "oldIndex (snd (createEmbeddedView h tpl s)) = oldIndex s"
  "changeCurrentElIndex (snd (createEmbeddedView h tpl s)) = changeCurrentElIndex s"
  "style (snd (createEmbeddedView h tpl s)) = style s"
  "classes (snd (createEmbeddedView h tpl s)) = classes s"
  "prevX (snd (createEmbeddedView h tpl s)) = prevX s"
  "prevY (snd (createEmbeddedView h tpl s)) = prevY s"
  "initialX (snd (createEmbeddedView h tpl s)) = initialX s"
  "initialY (snd (createEmbeddedView h tpl s)) = initialY s"
  "initialWidth (snd (createEmbeddedView h tpl s)) = initialWidth s"
  "mouseMoveListener (snd (createEmbeddedView h tpl s)) = mouseMoveListener s"
  "blockedAxis (snd (createEmbeddedView h tpl s)) = blockedAxis s"
  "dragBy (snd (createEmbeddedView h tpl s)) = dragBy s"
  "rowPlaceholder (snd (createEmbeddedView h tpl s)) = rowPlaceholder s"
  "nativeElement (snd (createEmbeddedView h tpl s)) = nativeElement s"
  by (simp_all add: createEmbeddedView_def Let_def)

lemma change_frame [simp]:
  "isDragging (changeRowPlaceholderIndex h tpl i s) = isDragging s"
  "oldIndex (changeRowPlaceholderIndex h tpl i s) = oldIndex s"
  "changeCurrentElIndex (changeRowPlaceholderIndex h tpl i s) = changeCurrentElIndex s"
  "style (changeRowPlaceholderIndex h tpl i s) = style s"
  "classes (changeRowPlaceholderIndex h tpl i s) = classes s"
  "prevX (changeRowPlaceholderIndex h tpl i s) = prevX s"
  "prevY (changeRowPlaceholderIndex h tpl i s) = prevY s"
  "initialX (changeRowPlaceholderIndex h tpl i s) = initialX s"
  "initialY (changeRowPlaceholderIndex h tpl i s) = initialY s"
  "initialWidth (changeRowPlaceholderIndex h tpl i s) = initialWidth s"
  "mouseMoveListener (changeRowPlaceholderIndex h tpl i s) = mouseMoveListener s"
  "blockedAxis (changeRowPlaceholderIndex h tpl i s) = blockedAxis s"
  "dragBy (changeRowPlaceholderIndex h tpl i s) = dragBy s"
  "rowPlaceholder (changeRowPlaceholderIndex h tpl i s) = rowPlaceholder s"
  "nativeElement (changeRowPlaceholderIndex h tpl i s) = nativeElement s"
  by (simp_all add: changeRowPlaceholderIndex_def Let_def split_beta split: option.splits)

lemma create_frame [simp]:
  "isDragging (stateOf (createRowPlaceholderElement h tpl s)) = isDragging s"
  "oldIndex (stateOf (createRowPlaceholderElement h tpl s)) = oldIndex s"
  "changeCurrentElIndex (stateOf (createRowPlaceholderElement h tpl s)) = changeCurrentElIndex s"
  "style (stateOf (createRowPlaceholderElement h tpl s)) = style s"
  "classes (stateOf (createRowPlaceholderElement h tpl s)) = classes s"
  "prevX (stateOf (createRowPlaceholderElement h tpl s)) = prevX s"
  "prevY (stateOf (createRowPlaceholderElement h tpl s)) = prevY s"
  "initialX (stateOf (createRowPlaceholderElement h tpl s)) = initialX s"
  "initialY (stateOf (createRowPlaceholderElement h tpl s)) = initialY s"
  "initialWidth (stateOf (createRowPlaceholderElement h tpl s)) = initialWidth s"
  "mouseMoveListener (stateOf (createRowPlaceholderElement h tpl s)) = mouseMoveListener s"
  "blockedAxis (stateOf (createRowPlaceholderElement h tpl s)) = blockedAxis s"
  "dragBy (stateOf (createRowPlaceholderElement h tpl s)) = dragBy s"
  "rowPlaceholder (stateOf (createRowPlaceholderElement h tpl s)) = rowPlaceholder s"
  "nativeElement (stateOf (createRowPlaceholderElement h tpl s)) = nativeElement s"
  by (simp_all add: createRowPlaceholderElement_def Let_def split_beta split: option.splits)

lemma cleanup_frame [simp]:
  "isDragging (cleanupListeners s) = isDragging s"
  "oldIndex (cleanupListeners s) = oldIndex s"
  "changeCurrentElIndex (cleanupListeners s) = changeCurrentElIndex s"
  "children (cleanupListeners s) = children s"
  "rowPlaceholderElement (cleanupListeners s) = rowPlaceholderElement s"
  "rowPlaceholderViewRef (cleanupListeners s) = rowPlaceholderViewRef s"
  by (simp_all add: cleanupListeners_def)

lemma press_excludes_throw: "pressStartsDrag s e \<Longrightarrow> \<not> queryThrows s e"
  by (auto simp: pressStartsDrag_def queryThrows_def split: if_splits)

lemma down_emits_nothing:
  "changeCurrentElIndex (stateOf (onMouseDown h e event s)) = changeCurrentElIndex s"
  by (simp add: onMouseDown_def Let_def setStyle_def split: option.splits)

lemma down_keeps_oldIndex:
  "oldIndex (stateOf (onMouseDown h e event s)) = oldIndex s"
  by (simp add: onMouseDown_def Let_def setStyle_def split: option.splits)

lemma down_starts:
  "pressStartsDrag s e \<Longrightarrow> isDragging (stateOf (onMouseDown h e event s))"
  by (simp add: onMouseDown_def Let_def setStyle_def press_excludes_throw split: option.splits)

lemma down_dragging_mono:
  "isDragging s \<Longrightarrow> isDragging (stateOf (onMouseDown h e event s))"
  by (simp add: onMouseDown_def Let_def setStyle_def split: option.splits)

lemma move_emits_nothing:
  "changeCurrentElIndex (onMouseMove h e event s) = changeCurrentElIndex s"
  by (simp add: onMouseMove_def Let_def setStyle_def split: option.splits)

lemma move_keeps_dragging:
  "isDragging (onMouseMove h e event s) = isDragging s"
  by (simp add: onMouseMove_def Let_def setStyle_def split: option.splits)

lemma move_idle: "\<not> isDragging s \<Longrightarrow> onMouseMove h e event s = s"
  by (simp add: onMouseMove_def)

lemma up_idle: "\<not> isDragging s \<Longrightarrow> onMouseUp h e s = s"
  by (simp add: onMouseUp_def)

lemma up_emits:
  "isDragging s \<Longrightarrow>
   changeCurrentElIndex (onMouseUp h e s) =
     changeCurrentElIndex s @ [\<lparr>eventOldIndex = oldIndex s, eventNewIndex = elementOldIndex e\<rparr>]"
  by (simp add: onMouseUp_def Let_def)

lemma up_ends: "\<not> isDragging (onMouseUp h e s)"
  by (simp add: onMouseUp_def Let_def)

subsection \<open>Runs of events\<close>

lemma run_append: "run h (xs @ ys) c = run h ys (run h xs c)"
  by (induction xs arbitrary: c) simp_all

lemma dispatch_listening_moves:
  "isMove ev \<Longrightarrow> listening (dispatch h ev c) = listening c"
  by (cases ev) (simp_all add: dispatch_def Let_def)

lemma dispatch_move_directive:
  "listening c \<Longrightarrow>
   directive (dispatch h (MouseMove e event) c) = onMouseMove h e event (directive c)"
  by (simp add: dispatch_def)

lemma dispatch_down_directive:
  "listening c \<Longrightarrow>
   directive (dispatch h (MouseDown e event) c) = stateOf (onMouseDown h e event (directive c))"
  by (simp add: dispatch_def Let_def)

lemma dispatch_down_listening:
  "listening (dispatch h (MouseDown e event) c) = listening c"
  by (simp add: dispatch_def Let_def)

lemma dispatch_up_directive:
  "listening c \<Longrightarrow> directive (dispatch h (MouseUp e) c) = onMouseUp h e (directive c)"
  by (simp add: dispatch_def)


lemma dispatch_deaf: "\<not> listening c \<Longrightarrow> dispatch h ev c = c"
  by (simp add: dispatch_def)

lemma run_moves_listening:
  "list_all isMove moves \<Longrightarrow> listening (run h moves c) = listening c"
  by (induction moves arbitrary: c) (simp_all add: dispatch_listening_moves)

lemma run_moves_emit_nothing:
  "list_all isMove moves \<Longrightarrow>
   changeCurrentElIndex (directive (run h moves c)) = changeCurrentElIndex (directive c)"
proof (induction moves arbitrary: c)
  case Nil
  then show ?case by simp
next
  case (Cons ev moves)
  then obtain e event where ev: "ev = MouseMove e event"
    by (cases ev) simp_all
  have "changeCurrentElIndex (directive (dispatch h ev c)) = changeCurrentElIndex (directive c)"
    by (cases "listening c") (simp_all add: ev dispatch_move_directive move_emits_nothing dispatch_deaf)
  with Cons show ?case by simp
qed

lemma run_moves_keep_dragging:
  "list_all isMove moves \<Longrightarrow>
   isDragging (directive (run h moves c)) = isDragging (directive c)"
proof (induction moves arbitrary: c)
  case Nil
  then show ?case by simp
next
  case (Cons ev moves)
  then obtain e event where ev: "ev = MouseMove e event"
    by (cases ev) simp_all
  have "isDragging (directive (dispatch h ev c)) = isDragging (directive c)"
    by (cases "listening c") (simp_all add: ev dispatch_move_directive move_keeps_dragging dispatch_deaf)
  with Cons show ?case by simp
qed



lemma dispatch_session_listening:
  "duringSession ev \<Longrightarrow> listening (dispatch h ev c) = listening c"
  by (cases ev) (simp_all add: dispatch_def Let_def)

lemma dispatch_session_emits_nothing:
  "duringSession ev \<Longrightarrow>
   changeCurrentElIndex (directive (dispatch h ev c)) = changeCurrentElIndex (directive c)"
  by (cases ev) (simp_all add: dispatch_def Let_def down_emits_nothing move_emits_nothing)

lemma dispatch_session_keeps_dragging:
  "duringSession ev \<Longrightarrow> isDragging (directive c) \<Longrightarrow> isDragging (directive (dispatch h ev c))"
  by (cases ev) (simp_all add: dispatch_def Let_def down_dragging_mono move_keeps_dragging)

lemma run_session_listening:
  "list_all duringSession evs \<Longrightarrow> listening (run h evs c) = listening c"
  by (induction evs arbitrary: c) (simp_all add: dispatch_session_listening)

lemma run_session_emits_nothing:
  "list_all duringSession evs \<Longrightarrow>
   changeCurrentElIndex (directive (run h evs c)) = changeCurrentElIndex (directive c)"
  by (induction evs arbitrary: c) (simp_all add: dispatch_session_emits_nothing)

lemma run_session_keeps_dragging:
  "list_all duringSession evs \<Longrightarrow> isDragging (directive c) \<Longrightarrow>
   isDragging (directive (run h evs c))"
  by (induction evs arbitrary: c) (simp_all add: dispatch_session_keeps_dragging)

subsection \<open>Removing the placeholder twice\<close>

text \<open>
  A state in which the view reference is already \<open>null\<close> while \<open>rowPlaceholderElement\<close> still
  refers to an element that is no longer in the document. It is the state every session
  ends in when \<open>destroy()\<close> detaches the view's root element, as the lemma after it shows.
\<close>

lemma remove_after_press_keeps_element:
  "rowPlaceholderElement
     (removeRowPlaceholderElement angular
        (stateOf (onMouseDown angular plainEnv (at 10 100) middleOfThree))) =
   Some (Placeholder 0)"
  by (simp add: middleOfThree_def newDirective_def plainEnv_def at_def rowTemplate_def
      angular_def onMouseDown_def pressStartsDrag_def queryThrows_def falsy_def setStyle_def
      createRowPlaceholderElement_def removeRowPlaceholderElement_def createEmbeddedView_def
      destroy_def firstRoot_def insertBefore_def Let_def)

text \<open>
  C10, as stated, fails: the second branch of \<open>removeRowPlaceholderElement\<close> clears the
  element reference only when the element still has a parent, so after the first call the
  reference can still be set.
\<close>

theorem remove_leaves_element_reference_counterexample:
  "\<not> (rowPlaceholderViewRef (removeRowPlaceholderElement angular
          (middleOfThree\<lparr>rowPlaceholderElement := Some (Placeholder 0)\<rparr>)) = None \<and>
        rowPlaceholderElement (removeRowPlaceholderElement angular
          (middleOfThree\<lparr>rowPlaceholderElement := Some (Placeholder 0)\<rparr>)) = None)"
  by (simp add: middleOfThree_def newDirective_def removeRowPlaceholderElement_def)

text \<open>
  C10, amended. \<open>removeRowPlaceholderElement\<close> is idempotent: calling it twice yields the
  same state as calling it once. After the first call the view reference is \<open>null\<close>, and
  the placeholder element reference is either \<open>null\<close> or refers to an element that is not
  among the parent's children, so the second call changes nothing.
\<close>

theorem remove_placeholder_idempotent:
  "removeRowPlaceholderElement h (removeRowPlaceholderElement h s) =
     removeRowPlaceholderElement h s \<and>
   rowPlaceholderViewRef (removeRowPlaceholderElement h s) = None \<and>
   (case rowPlaceholderElement (removeRowPlaceholderElement h s) of
      None \<Rightarrow> True
    | Some p \<Rightarrow> p \<notin> set (children (removeRowPlaceholderElement h s)))"
  by (auto simp: remove_idem split: option.splits dest: remove_element_detached)

theorem remove_placeholder_idempotent_witness:
  "removeRowPlaceholderElement angular (removeRowPlaceholderElement angular
      (stateOf (onMouseDown angular plainEnv (at 10 100) middleOfThree))) =
     removeRowPlaceholderElement angular
      (stateOf (onMouseDown angular plainEnv (at 10 100) middleOfThree)) \<and>
   rowPlaceholderViewRef (removeRowPlaceholderElement angular
      (stateOf (onMouseDown angular plainEnv (at 10 100) middleOfThree))) = None \<and>
   rowPlaceholderElement (removeRowPlaceholderElement angular
      (stateOf (onMouseDown angular plainEnv (at 10 100) middleOfThree))) = Some (Placeholder 0) \<and>
   children (removeRowPlaceholderElement angular
      (stateOf (onMouseDown angular plainEnv (at 10 100) middleOfThree))) = [Item 0, Item 1, Item 2]"
proof -
  let ?s = "stateOf (onMouseDown angular plainEnv (at 10 100) middleOfThree)"
  have c: "children (removeRowPlaceholderElement angular ?s) = [Item 0, Item 1, Item 2]"
    by (simp add: middleOfThree_def newDirective_def plainEnv_def at_def rowTemplate_def
      angular_def onMouseDown_def pressStartsDrag_def queryThrows_def falsy_def setStyle_def
      createRowPlaceholderElement_def removeRowPlaceholderElement_def createEmbeddedView_def
      destroy_def firstRoot_def insertBefore_def Let_def)
  from remove_placeholder_idempotent [of angular ?s] c remove_after_press_keeps_element
  show ?thesis by simp
qed

subsection \<open>The first session reports the initial old index\<close>

lemma move_keeps_axis: "blockedAxis (onMouseMove h e event s) = blockedAxis s"
  by (simp add: onMouseMove_def Let_def setStyle_def split: option.splits)

lemma down_keeps_axis: "blockedAxis (stateOf (onMouseDown h e event s)) = blockedAxis s"
  by (simp add: onMouseDown_def Let_def setStyle_def split: option.splits)

lemma move_skips_index:
  "blockedAxis s = Some AxisY \<or> elementFromPoint e = None \<Longrightarrow>
   oldIndex (onMouseMove h e event s) = oldIndex s"
  by (auto simp: onMouseMove_def Let_def setStyle_def split: option.splits)

lemma run_skipping_moves:
  "list_all (skipsIndex (blockedAxis (directive c))) moves \<Longrightarrow>
   oldIndex (directive (run h moves c)) = oldIndex (directive c)"
proof (induction moves arbitrary: c)
  case Nil
  then show ?case by simp
next
  case (Cons ev moves)
  then obtain e event where ev: "ev = MouseMove e event"
    by (cases ev) simp_all
  let ?c' = "dispatch h ev c"
  have ax: "blockedAxis (directive ?c') = blockedAxis (directive c)"
    by (cases "listening c") (simp_all add: ev dispatch_move_directive move_keeps_axis dispatch_deaf)
  have skip: "blockedAxis (directive c) = Some AxisY \<or> elementFromPoint e = None"
    using Cons.prems ev by simp
  have ix: "oldIndex (directive ?c') = oldIndex (directive c)"
    using skip
    by (cases "listening c") (simp_all add: ev dispatch_move_directive move_skips_index dispatch_deaf)
  from Cons.prems have "list_all (skipsIndex (blockedAxis (directive ?c'))) moves"
    by (simp add: ax)
  then have "oldIndex (directive (run h moves ?c')) = oldIndex (directive ?c')"
    by (rule Cons.IH)
  with ix show ?case by simp
qed

lemma skipping_are_moves: "list_all (skipsIndex a) moves \<Longrightarrow> list_all isMove moves"
proof (induction moves)
  case Nil
  then show ?case by simp
next
  case (Cons ev moves)
  then show ?case by (cases ev) simp_all
qed

text \<open>
  C9. In the first session of a directive (the state the constructor leaves, with any
  inputs bound), if no pointer-move reaches the index computation, the value emitted on
  pointer-up has \<open>oldIndex = -1\<close>, whatever the position of the host element among its
  siblings.
\<close>

theorem first_session_reports_initial_index:
  "s = (newDirective e0 el cs st cl)
         \<lparr>blockedAxis := a, zIndex := z, dragBy := d, rowPlaceholder := t\<rparr> \<Longrightarrow>
   pressStartsDrag s e \<Longrightarrow>
   list_all (skipsIndex a) moves \<Longrightarrow>
   changeCurrentElIndex (directive (run h (MouseDown e event # moves @ [MouseUp e']) (listed s))) =
     [\<lparr>eventOldIndex = - 1, eventNewIndex = elementOldIndex e'\<rparr>]"
proof -
  assume s: "s = (newDirective e0 el cs st cl)
         \<lparr>blockedAxis := a, zIndex := z, dragBy := d, rowPlaceholder := t\<rparr>"
    and press: "pressStartsDrag s e"
    and skip: "list_all (skipsIndex a) moves"
  let ?c0 = "listed s"
  let ?c1 = "dispatch h (MouseDown e event) ?c0"
  let ?c2 = "run h moves ?c1"
  have l0: "listening ?c0" and d0: "directive ?c0 = s" by (simp_all add: listed_def)
  have init: "oldIndex s = - 1" "blockedAxis s = a" "changeCurrentElIndex s = []"
    by (simp_all add: s newDirective_def)
  have moves: "list_all isMove moves" using skip by (rule skipping_are_moves)
  have l1: "listening ?c1" using l0 by (simp add: dispatch_down_listening)
  have dir1: "directive ?c1 = stateOf (onMouseDown h e event s)"
    using l0 d0 by (simp add: dispatch_down_directive)
  have ax1: "blockedAxis (directive ?c1) = a" by (simp add: dir1 down_keeps_axis init)
  have ix1: "oldIndex (directive ?c1) = - 1" by (simp add: dir1 down_keeps_oldIndex init)
  have em1: "changeCurrentElIndex (directive ?c1) = []"
    by (simp add: dir1 down_emits_nothing init)
  have dr1: "isDragging (directive ?c1)" using press by (simp add: dir1 down_starts)
  have l2: "listening ?c2" using moves l1 by (simp add: run_moves_listening)
  have dr2: "isDragging (directive ?c2)" using moves dr1 by (simp add: run_moves_keep_dragging)
  have em2: "changeCurrentElIndex (directive ?c2) = []"
    using moves em1 by (simp add: run_moves_emit_nothing)
  have "list_all (skipsIndex (blockedAxis (directive ?c1))) moves" using skip by (simp add: ax1)
  then have ix2: "oldIndex (directive ?c2) = - 1" using ix1 by (simp add: run_skipping_moves)
  have "run h (MouseDown e event # moves @ [MouseUp e']) ?c0 = dispatch h (MouseUp e') ?c2"
    by (simp add: run_append)
  then show ?thesis using l2 dr2 em2 ix2 by (simp add: dispatch_up_directive up_emits)
qed

theorem first_session_reports_initial_index_witness:
  "pressStartsDrag
     ((newDirective plainEnv (Item 2) [Item 0, Item 1, Item 2] Map.empty {})
        \<lparr>blockedAxis := Some AxisY, zIndex := None, dragBy := None,
         rowPlaceholder := Some rowTemplate\<rparr>) plainEnv \<and>
   list_all (skipsIndex (Some AxisY)) [MouseMove (over (Item 0)) (at 10 40)] \<and>
   changeCurrentElIndex (directive (run angular
       (MouseDown plainEnv (at 10 100) # [MouseMove (over (Item 0)) (at 10 40)] @ [MouseUp plainEnv])
       (listed ((newDirective plainEnv (Item 2) [Item 0, Item 1, Item 2] Map.empty {})
          \<lparr>blockedAxis := Some AxisY, zIndex := None, dragBy := None,
           rowPlaceholder := Some rowTemplate\<rparr>)))) =
     [\<lparr>eventOldIndex = - 1, eventNewIndex = None\<rparr>]"
proof -
  let ?s = "(newDirective plainEnv (Item 2) [Item 0, Item 1, Item 2] Map.empty {})
        \<lparr>blockedAxis := Some AxisY, zIndex := None, dragBy := None,
         rowPlaceholder := Some rowTemplate\<rparr>"
  let ?moves = "[MouseMove (over (Item 0)) (at 10 40)]"
  have press: "pressStartsDrag ?s plainEnv"
    by (simp add: newDirective_def pressStartsDrag_def queryThrows_def falsy_def)
  have skip: "list_all (skipsIndex (Some AxisY)) ?moves" by simp
  have none: "elementOldIndex plainEnv = None" by (simp add: plainEnv_def)
  from first_session_reports_initial_index [OF refl press skip, of angular "at 10 100" plainEnv]
    press skip none
  show ?thesis by simp
qed

subsection \<open>The placeholder is gone at the end of the session\<close>

lemma set_insertAfter: "set (insertAfter a ns xs) \<subseteq> set ns \<union> set xs"
  by (induction xs) auto

lemma set_insertBeforeRef: "set (insertBeforeRef n r xs) = insert n (set xs)"
  by (induction xs) auto

lemma set_insertBefore: "set (insertBefore n ref xs) \<subseteq> insert n (set xs)"
  by (auto simp: insertBefore_def set_insertBeforeRef split: option.splits if_splits)

lemma set_appendChild: "set (appendChild n xs) = insert n (set xs)"
  by (auto simp: appendChild_def)

text \<open>
  The invariant: a placeholder element among the siblings is the one the directive holds
  in \<open>rowPlaceholderElement\<close>.
\<close>

lemma remove_children_subset:
  "set (children (removeRowPlaceholderElement h s)) \<subseteq> set (children s)"
  by (auto simp: removeRowPlaceholderElement_def destroy_def Let_def split: option.splits if_splits)

lemma remove_drops_element:
  "rowPlaceholderElement s = Some p \<Longrightarrow> p \<notin> set (children (removeRowPlaceholderElement h s))"
  by (auto simp: removeRowPlaceholderElement_def destroy_def Let_def split: option.splits if_splits)

lemma remove_clears_placeholders:
  assumes "placeholderTracked s"
  shows "placeholderFree (children (removeRowPlaceholderElement h s))"
  unfolding placeholderFree_def list_all_iff
proof
  fix n
  assume n: "n \<in> set (children (removeRowPlaceholderElement h s))"
  then have "n \<in> set (children s)" using remove_children_subset by blast
  show "\<not> isPlaceholder n"
  proof
    assume "isPlaceholder n"
    with assms \<open>n \<in> set (children s)\<close> have "rowPlaceholderElement s = Some n"
      by (simp add: placeholderTracked_def list_all_iff)
    then have "n \<notin> set (children (removeRowPlaceholderElement h s))"
      by (rule remove_drops_element)
    with n show False by simp
  qed
qed

lemma free_tracked: "placeholderFree (children s) \<Longrightarrow> placeholderTracked s"
  by (simp add: placeholderFree_def placeholderTracked_def list_all_iff)

lemma in_insertAfter: "n \<in> set (insertAfter a ns xs) \<Longrightarrow> n \<in> set ns \<or> n \<in> set xs"
  using set_insertAfter [of a ns xs] by blast

lemma in_insertBefore: "n \<in> set (insertBefore p ref xs) \<Longrightarrow> n = p \<or> n \<in> set xs"
  using set_insertBefore [of p ref xs] by blast

lemma view_children:
  "n \<in> set (children (snd (createEmbeddedView h tpl s))) \<Longrightarrow>
   n \<in> set (rootNodes (fst (createEmbeddedView h tpl s))) \<or> n \<in> set (children s)"
  by (auto simp: createEmbeddedView_def Let_def split: if_splits dest: in_insertAfter)

lemma view_roots:
  "n \<in> set (rootNodes (fst (createEmbeddedView h tpl s))) \<Longrightarrow>
   firstRoot (fst (createEmbeddedView h tpl s)) = Some n"
  by (auto simp: createEmbeddedView_def firstRoot_def Let_def split: if_splits)

lemma change_children:
  "n \<in> set (children (changeRowPlaceholderIndex h tpl i s)) \<Longrightarrow>
   rowPlaceholderElement (changeRowPlaceholderIndex h tpl i s) = Some n \<or>
   n \<in> set (children (removeRowPlaceholderElement h s))"
  by (auto simp: changeRowPlaceholderIndex_def Let_def split_beta set_appendChild
      split: option.splits if_splits dest!: in_insertBefore view_children view_roots)

lemma create_children:
  "n \<in> set (children (stateOf (createRowPlaceholderElement h tpl s))) \<Longrightarrow>
   rowPlaceholderElement (stateOf (createRowPlaceholderElement h tpl s)) = Some n \<or>
   n \<in> set (children (removeRowPlaceholderElement h s))"
  by (auto simp: createRowPlaceholderElement_def Let_def split_beta
      split: option.splits if_splits dest!: in_insertBefore view_children view_roots)

lemma change_tracked:
  assumes "placeholderTracked s"
  shows "placeholderTracked (changeRowPlaceholderIndex h tpl i s)"
  unfolding placeholderTracked_def list_all_iff
proof (intro ballI impI)
  fix n
  assume n: "n \<in> set (children (changeRowPlaceholderIndex h tpl i s))" and p: "isPlaceholder n"
  from remove_clears_placeholders [OF assms, of h] p
  have "n \<notin> set (children (removeRowPlaceholderElement h s))"
    by (auto simp: placeholderFree_def list_all_iff)
  with change_children [OF n]
  show "rowPlaceholderElement (changeRowPlaceholderIndex h tpl i s) = Some n" by simp
qed

lemma create_tracked:
  assumes "placeholderTracked s"
  shows "placeholderTracked (stateOf (createRowPlaceholderElement h tpl s))"
  unfolding placeholderTracked_def list_all_iff
proof (intro ballI impI)
  fix n
  assume n: "n \<in> set (children (stateOf (createRowPlaceholderElement h tpl s)))"
    and p: "isPlaceholder n"
  from remove_clears_placeholders [OF assms, of h] p
  have "n \<notin> set (children (removeRowPlaceholderElement h s))"
    by (auto simp: placeholderFree_def list_all_iff)
  with create_children [OF n]
  show "rowPlaceholderElement (stateOf (createRowPlaceholderElement h tpl s)) = Some n" by simp
qed

lemma tracked_update [simp]:
  "placeholderTracked (s\<lparr>isDragging := b\<rparr>) = placeholderTracked s"
  "placeholderTracked (s\<lparr>initialX := x\<rparr>) = placeholderTracked s"
  "placeholderTracked (s\<lparr>initialY := x\<rparr>) = placeholderTracked s"
  "placeholderTracked (s\<lparr>prevX := x\<rparr>) = placeholderTracked s"
  "placeholderTracked (s\<lparr>prevY := x\<rparr>) = placeholderTracked s"
  "placeholderTracked (s\<lparr>oldIndex := x\<rparr>) = placeholderTracked s"
  "placeholderTracked (s\<lparr>mouseMoveListener := b\<rparr>) = placeholderTracked s"
  "placeholderTracked (s\<lparr>changeCurrentElIndex := evs\<rparr>) = placeholderTracked s"
  "placeholderTracked (s\<lparr>style := st\<rparr>) = placeholderTracked s"
  "placeholderTracked (s\<lparr>classes := cl\<rparr>) = placeholderTracked s"
  by (simp_all add: placeholderTracked_def)

lemma down_tracked:
  "placeholderTracked s \<Longrightarrow> placeholderTracked (stateOf (onMouseDown h e event s))"
  by (simp add: onMouseDown_def Let_def setStyle_def create_tracked split: option.splits)

lemma move_tracked:
  "placeholderTracked s \<Longrightarrow> placeholderTracked (onMouseMove h e event s)"
  by (simp add: onMouseMove_def Let_def setStyle_def change_tracked split: option.splits)

lemma remove_tracked:
  "placeholderTracked s \<Longrightarrow> placeholderTracked (removeRowPlaceholderElement h s)"
  by (rule free_tracked) (rule remove_clears_placeholders)

lemma up_tracked:
  "placeholderTracked s \<Longrightarrow> placeholderTracked (onMouseUp h e s)"
  by (simp add: onMouseUp_def Let_def cleanupListeners_def remove_tracked)

lemma up_clears_placeholders:
  "placeholderTracked s \<Longrightarrow> isDragging s \<Longrightarrow> placeholderFree (children (onMouseUp h e s))"
  by (simp add: onMouseUp_def Let_def cleanupListeners_def remove_tracked
      remove_clears_placeholders)

lemma up_drops_view: "isDragging s \<Longrightarrow> rowPlaceholderViewRef (onMouseUp h e s) = None"
  by (simp add: onMouseUp_def Let_def)

lemma dispatch_tracked:
  "placeholderTracked (directive c) \<Longrightarrow> placeholderTracked (directive (dispatch h ev c))"
  by (cases ev)
    (simp_all add: dispatch_def Let_def down_tracked move_tracked up_tracked ngOnDestroy_def
      cleanupListeners_def)

lemma run_tracked:
  "placeholderTracked (directive c) \<Longrightarrow> placeholderTracked (directive (run h evs c))"
  by (induction evs arbitrary: c) (simp_all add: dispatch_tracked)

text \<open>
  C6. Start from a component whose sibling list holds no placeholder element and let it
  handle any sequence of events. If a session is then active, the pointer-up that ends it
  leaves no placeholder element in the sibling list, and the directive's view reference is
  \<open>null\<close>.
\<close>

theorem placeholder_destroyed_at_session_end:
  "placeholderFree (children (directive c0)) \<Longrightarrow>
   c = run h evs c0 \<Longrightarrow>
   listening c \<Longrightarrow>
   isDragging (directive c) \<Longrightarrow>
   placeholderFree (children (directive (dispatch h (MouseUp e) c))) \<and>
   rowPlaceholderViewRef (directive (dispatch h (MouseUp e) c)) = None"
proof -
  assume free: "placeholderFree (children (directive c0))"
    and c: "c = run h evs c0" and l: "listening c" and d: "isDragging (directive c)"
  from free have "placeholderTracked (directive c0)" by (rule free_tracked)
  then have "placeholderTracked (directive c)" unfolding c by (rule run_tracked)
  with l d show ?thesis
    by (simp add: dispatch_up_directive up_clears_placeholders up_drops_view)
qed

theorem placeholder_destroyed_at_session_end_witness:
  "placeholderFree (children (directive (listed middleOfThree))) \<and>
   listening (run angular
     [MouseDown plainEnv (at 10 100), MouseMove (over (Item 2)) (at 10 130)] (listed middleOfThree)) \<and>
   isDragging (directive (run angular
     [MouseDown plainEnv (at 10 100), MouseMove (over (Item 2)) (at 10 130)] (listed middleOfThree))) \<and>
   children (directive (run angular
     [MouseDown plainEnv (at 10 100), MouseMove (over (Item 2)) (at 10 130)] (listed middleOfThree))) =
     [Item 0, Item 1, Placeholder 1, Item 2] \<and>
   placeholderFree (children (directive (dispatch angular (MouseUp plainEnv) (run angular
     [MouseDown plainEnv (at 10 100), MouseMove (over (Item 2)) (at 10 130)] (listed middleOfThree))))) \<and>
   rowPlaceholderViewRef (directive (dispatch angular (MouseUp plainEnv) (run angular
     [MouseDown plainEnv (at 10 100), MouseMove (over (Item 2)) (at 10 130)] (listed middleOfThree)))) = None"
proof -
  let ?evs = "[MouseDown plainEnv (at 10 100), MouseMove (over (Item 2)) (at 10 130)]"
  let ?c = "run angular ?evs (listed middleOfThree)"
  have free: "placeholderFree (children (directive (listed middleOfThree)))"
    by (simp add: listed_def middleOfThree_def newDirective_def placeholderFree_def)
  have l: "listening ?c"
    by (simp add: listed_def dispatch_def Let_def)
  have d: "isDragging (directive ?c)"
    by (simp add: listed_def dispatch_def Let_def move_keeps_dragging down_starts
        middleOfThree_def newDirective_def pressStartsDrag_def queryThrows_def falsy_def)
  have cs: "children (directive ?c) = [Item 0, Item 1, Placeholder 1, Item 2]"
    by (simp add: listed_def middleOfThree_def newDirective_def plainEnv_def over_def at_def
        rowTemplate_def angular_def dispatch_def onMouseDown_def onMouseMove_def
        pressStartsDrag_def queryThrows_def falsy_def setStyle_def createRowPlaceholderElement_def
        changeRowPlaceholderIndex_def removeRowPlaceholderElement_def createEmbeddedView_def
        destroy_def firstRoot_def insertBefore_def appendChild_def item_def siblingItems_def
        targetIndex_def Let_def)
  from placeholder_destroyed_at_session_end [OF free refl l d, of plainEnv] free l d cs
  show ?thesis by simp
qed

subsection \<open>Without a placeholder template\<close>

lemma onMouseDown_pressed:
  "onMouseDown h e event s =
     (if queryThrows s e then Threw SyntaxError s
      else if pressStartsDrag s e
      then (case rowPlaceholder s of
              None \<Rightarrow> Done (pressed e event s)
            | Some tpl \<Rightarrow> createRowPlaceholderElement h tpl (pressed e event s))
      else Done s)"
  by (simp add: onMouseDown_def pressed_def Let_def setStyle_def split: option.split)

lemma pressed_frame [simp]:
  "children (pressed e event s) = children s"
  "rowPlaceholderViewRef (pressed e event s) = rowPlaceholderViewRef s"
  "rowPlaceholderElement (pressed e event s) = rowPlaceholderElement s"
  "nextViewId (pressed e event s) = nextViewId s"
  "rowPlaceholder (pressed e event s) = rowPlaceholder s"
  by (simp_all add: pressed_def)

lemma pressed_template:
  "pressed e event (s\<lparr>rowPlaceholder := t\<rparr>) = (pressed e event s)\<lparr>rowPlaceholder := t\<rparr>"
  by (simp add: pressed_def)

lemma dragFields_template [simp]: "dragFields (s\<lparr>rowPlaceholder := t\<rparr>) = dragFields s"
  by (simp add: dragFields_def)

lemma dragFields_create [simp]:
  "dragFields (stateOf (createRowPlaceholderElement h tpl s)) = dragFields s"
  by (simp add: dragFields_def)

lemma dragFields_change [simp]:
  "dragFields (changeRowPlaceholderIndex h tpl i s) = dragFields s"
  by (simp add: dragFields_def)

lemma press_template [simp]:
  "pressStartsDrag (s\<lparr>rowPlaceholder := t\<rparr>) e = pressStartsDrag s e"
  "queryThrows (s\<lparr>rowPlaceholder := t\<rparr>) e = queryThrows s e"
  by (simp_all add: pressStartsDrag_def queryThrows_def)

lemma down_dragFields:
  "dragFields (stateOf (onMouseDown h e event s)) =
     (if pressStartsDrag s e then dragFields (pressed e event s) else dragFields s)"
  by (simp add: onMouseDown_pressed press_excludes_throw split: option.split)

lemma down_without_template:
  "rowPlaceholder s = None \<Longrightarrow>
   onMouseDown h e event s =
     (if queryThrows s e then Threw SyntaxError s
      else Done (if pressStartsDrag s e then pressed e event s else s))"
  by (simp add: onMouseDown_pressed)

text \<open>
  The index computation and the style of a pointer-move, without the placeholder: what
  \<open>onMouseMove\<close> does to a dragging state that has no template.
\<close>

lemma move_without_template:
  "rowPlaceholder s = None \<Longrightarrow>
   children (onMouseMove h e event s) = children s \<and>
   rowPlaceholderViewRef (onMouseMove h e event s) = rowPlaceholderViewRef s \<and>
   rowPlaceholderElement (onMouseMove h e event s) = rowPlaceholderElement s \<and>
   nextViewId (onMouseMove h e event s) = nextViewId s"
  by (simp add: onMouseMove_def Let_def setStyle_def split: option.split)

lemma siblingItems_update [simp]:
  "siblingItems (s\<lparr>style := st\<rparr>) = siblingItems s"
  "siblingItems (s\<lparr>rowPlaceholder := t\<rparr>) = siblingItems s"
  by (simp_all add: siblingItems_def)

lemma move_template_irrelevant:
  "dragFields (onMouseMove h e event (s\<lparr>rowPlaceholder := t\<rparr>)) =
   dragFields (onMouseMove h e event s)"
proof (cases "isDragging s")
  case False
  then show ?thesis by (simp add: move_idle)
next
  case True
  have fields: "\<And>u i. dragFields (u\<lparr>oldIndex := i, prevX := clientX event, prevY := clientY event\<rparr>) =
      ((isDragging u, initialX u, initialY u, clientX event, clientY event, i),
       mouseMoveListener u, changeCurrentElIndex u, style u, classes u)"
    by (simp add: dragFields_def)
  have fields': "\<And>u. dragFields (u\<lparr>prevX := clientX event, prevY := clientY event\<rparr>) =
      ((isDragging u, initialX u, initialY u, clientX event, clientY event, oldIndex u),
       mouseMoveListener u, changeCurrentElIndex u, style u, classes u)"
    by (simp add: dragFields_def)
  show ?thesis
    using True
    by (simp add: onMouseMove_def Let_def setStyle_def fields fields' split: option.split)
qed

subsection \<open>A blocked axis\<close>

lemma move_classes: "classes (onMouseMove h e event s) = classes s"
  by (simp add: onMouseMove_def Let_def setStyle_def split: option.split)

lemma move_style:
  "style (onMouseMove h e event s) =
     (if isDragging s
      then (let st = (if blockedAxis s \<noteq> Some AxisX
                      then (style s)(''left'' \<mapsto> Px (offsetLeft e + (clientX event - prevX s)))
                      else style s)
            in if blockedAxis s \<noteq> Some AxisY
               then st(''top'' \<mapsto> Px (offsetTop e + (clientY event - prevY s)))
               else st)
      else style s)"
  by (simp add: onMouseMove_def Let_def setStyle_def split: option.split)

text \<open>
  C4. A pointer-move with the x axis blocked leaves the element's \<open>left\<close> as it was, and
  one with the y axis blocked leaves its \<open>top\<close> as it was. Every other style property
  and the class list come out of the handler exactly as they do without the lock.
\<close>

theorem blocked_axis_frame:
  "(blockedAxis s = Some AxisX \<longrightarrow>
      style (onMouseMove h e event s) ''left'' = style s ''left'') \<and>
   (blockedAxis s = Some AxisY \<longrightarrow>
      style (onMouseMove h e event s) ''top'' = style s ''top'') \<and>
   (p \<noteq> axisProperty a \<longrightarrow>
      style (onMouseMove h e event (s\<lparr>blockedAxis := Some a\<rparr>)) p =
      style (onMouseMove h e event (s\<lparr>blockedAxis := None\<rparr>)) p) \<and>
   classes (onMouseMove h e event (s\<lparr>blockedAxis := Some a\<rparr>)) =
     classes (onMouseMove h e event (s\<lparr>blockedAxis := None\<rparr>))"
  by (cases a) (simp_all add: move_style move_classes Let_def)

theorem blocked_axis_frame_witness:
  "blockedAxis ((pressed plainEnv (at 10 100) middleOfThree)\<lparr>blockedAxis := Some AxisX\<rparr>) = Some AxisX \<and>
   style (onMouseMove angular (over (Item 2)) (at 25 130)
     ((pressed plainEnv (at 10 100) middleOfThree)\<lparr>blockedAxis := Some AxisX\<rparr>)) ''left'' = None \<and>
   style (onMouseMove angular (over (Item 2)) (at 25 130)
     ((pressed plainEnv (at 10 100) middleOfThree)\<lparr>blockedAxis := Some AxisX\<rparr>)) ''top'' = Some (Px 30) \<and>
   blockedAxis ((pressed plainEnv (at 10 100) middleOfThree)\<lparr>blockedAxis := Some AxisY\<rparr>) = Some AxisY \<and>
   style (onMouseMove angular (over (Item 2)) (at 25 130)
     ((pressed plainEnv (at 10 100) middleOfThree)\<lparr>blockedAxis := Some AxisY\<rparr>)) ''top'' = None \<and>
   style (onMouseMove angular (over (Item 2)) (at 25 130)
     ((pressed plainEnv (at 10 100) middleOfThree)\<lparr>blockedAxis := Some AxisY\<rparr>)) ''left'' = Some (Px 15) \<and>
   ''top'' \<noteq> axisProperty AxisX \<and>
   style (onMouseMove angular (over (Item 2)) (at 25 130)
     ((pressed plainEnv (at 10 100) middleOfThree)\<lparr>blockedAxis := None\<rparr>)) ''top'' = Some (Px 30)"
proof -
  let ?s = "pressed plainEnv (at 10 100) middleOfThree"
  let ?x = "?s\<lparr>blockedAxis := Some AxisX\<rparr>"
  let ?y = "?s\<lparr>blockedAxis := Some AxisY\<rparr>"
  have ax: "blockedAxis ?x = Some AxisX" "blockedAxis ?y = Some AxisY" by simp_all
  have st: "style ?x ''left'' = None" "style ?y ''top'' = None"
    by (simp_all add: pressed_def)
  have p: "''top'' \<noteq> axisProperty AxisX" by simp
  have top: "style (onMouseMove angular (over (Item 2)) (at 25 130) ?x) ''top'' = Some (Px 30)"
    by (simp add: move_style pressed_def plainEnv_def over_def at_def)
  have left: "style (onMouseMove angular (over (Item 2)) (at 25 130) ?y) ''left'' = Some (Px 15)"
    by (simp add: move_style pressed_def plainEnv_def over_def at_def)
  from blocked_axis_frame [of ?x angular "over (Item 2)" "at 25 130" "''top''" AxisX]
    blocked_axis_frame [of ?y angular "over (Item 2)" "at 25 130" "''top''" AxisX]
    ax st p top left
  show ?thesis by simp
qed

subsection \<open>The index computed for the placeholder\<close>

text \<open>The placeholder element is not among the items that are counted.\<close>

lemma siblingItems_exclude_placeholder:
  "rowPlaceholderElement s = Some p \<Longrightarrow> p \<notin> set (siblingItems s)"
  by (simp add: siblingItems_def)

lemma indexOf_bounds: "- 1 \<le> indexOf xs a \<and> indexOf xs a < int (length xs)"
  by (induction xs) (auto simp: Let_def)

text \<open>
  The computed index is at most the number of items, for any stored \<open>oldIndex\<close>, and never
  below -1.
\<close>

lemma targetIndex_bounds:
  "- 1 \<le> targetIndex items old target up \<and> targetIndex items old target up \<le> int (length items)"
  using indexOf_bounds [of items target]
  by (auto simp: targetIndex_def Let_def)

lemma targetIndex_not_up: "items \<noteq> [] \<Longrightarrow> 0 \<le> targetIndex items old target False"
  using indexOf_bounds [of items target]
  by (cases items) (auto simp: targetIndex_def Let_def)

text \<open>
  C2 fails on the code. The press is on the middle element of three; the pointer then
  moves up twice over the first element. The first move computes index 0. The second
  computes 0 again, finds it equal to \<open>oldIndex\<close> with the pointer moving up, and line 215
  decrements it without the clamp that lines 198, 204 and 209 apply: the index passed to
  \<open>changeRowPlaceholderIndex\<close> and stored is -1, and \<open>children[-1]\<close> being \<open>undefined\<close>, the
  placeholder is put at the end of the list.
\<close>

theorem second_upward_move_computes_minus_one:
  "oldIndex (directive (run angular
     [MouseDown plainEnv (at 10 100),
      MouseMove (over (Item 0)) (at 10 90)] (listed middleOfThree))) = 0 \<and>
   siblingItems (directive (run angular
     [MouseDown plainEnv (at 10 100),
      MouseMove (over (Item 0)) (at 10 90)] (listed middleOfThree))) = [Item 0, Item 1, Item 2] \<and>
   targetIndex [Item 0, Item 1, Item 2] 0 (Item 0) True = - 1 \<and>
   oldIndex (directive (run angular
     [MouseDown plainEnv (at 10 100),
      MouseMove (over (Item 0)) (at 10 90),
      MouseMove (over (Item 0)) (at 10 80)] (listed middleOfThree))) = - 1 \<and>
   children (directive (run angular
     [MouseDown plainEnv (at 10 100),
      MouseMove (over (Item 0)) (at 10 90),
      MouseMove (over (Item 0)) (at 10 80)] (listed middleOfThree))) =
     [Item 0, Item 1, Item 2, Placeholder 2]"
  by (simp add: listed_def middleOfThree_def newDirective_def plainEnv_def over_def at_def
      rowTemplate_def angular_def dispatch_def onMouseDown_def onMouseMove_def
      pressStartsDrag_def queryThrows_def falsy_def setStyle_def createRowPlaceholderElement_def
      changeRowPlaceholderIndex_def removeRowPlaceholderElement_def createEmbeddedView_def
      destroy_def firstRoot_def insertBefore_def appendChild_def item_def siblingItems_def
      targetIndex_def Let_def)

subsection \<open>The pair emitted on pointer-up\<close>

text \<open>
  C1 fails on the code. The directive sits on the middle element of three (index 1); the
  pointer is pressed, moved down over the last element, and released. The placeholder ends
  at index 2 of the sibling list. The emitted value has \<open>oldIndex = 2\<close>, the index last
  computed for the placeholder, not the element's index 1 at the start; and its
  \<open>newIndex\<close> is \<open>undefined\<close>, read from the property \<open>oldIndex\<close> of the DOM element, which
  nothing assigns.
\<close>

theorem emitted_pair_is_not_original_and_final:
  "indexOf (children middleOfThree) (nativeElement middleOfThree) = 1 \<and>
   children (directive (run angular
     [MouseDown plainEnv (at 10 100),
      MouseMove (over (Item 2)) (at 10 130)] (listed middleOfThree))) =
     [Item 0, Item 1, Placeholder 1, Item 2] \<and>
   changeCurrentElIndex (directive (run angular
     [MouseDown plainEnv (at 10 100),
      MouseMove (over (Item 2)) (at 10 130),
      MouseUp plainEnv] (listed middleOfThree))) =
     [\<lparr>eventOldIndex = 2, eventNewIndex = None\<rparr>]"
  by (simp add: listed_def middleOfThree_def newDirective_def plainEnv_def over_def at_def
      rowTemplate_def angular_def dispatch_def onMouseDown_def onMouseMove_def onMouseUp_def
      cleanupListeners_def
      pressStartsDrag_def queryThrows_def falsy_def setStyle_def createRowPlaceholderElement_def
      changeRowPlaceholderIndex_def removeRowPlaceholderElement_def createEmbeddedView_def
      destroy_def firstRoot_def insertBefore_def appendChild_def item_def siblingItems_def
      targetIndex_def Let_def)

subsection \<open>One event per completed drag\<close>

lemma dispatch_idle:
  "\<not> isDragging (directive c) \<Longrightarrow> noPress ev \<Longrightarrow>
   \<not> isDragging (directive (dispatch h ev c)) \<and>
   changeCurrentElIndex (directive (dispatch h ev c)) = changeCurrentElIndex (directive c)"
  by (cases ev)
    (simp_all add: dispatch_def move_idle up_idle ngOnDestroy_def cleanupListeners_def)

lemma run_idle:
  "\<not> isDragging (directive c) \<Longrightarrow> list_all noPress evs \<Longrightarrow>
   \<not> isDragging (directive (run h evs c)) \<and>
   changeCurrentElIndex (directive (run h evs c)) = changeCurrentElIndex (directive c)"
proof (induction evs arbitrary: c)
  case Nil
  then show ?case by simp
next
  case (Cons ev evs)
  from Cons.prems have step: "\<not> isDragging (directive (dispatch h ev c))"
    "changeCurrentElIndex (directive (dispatch h ev c)) = changeCurrentElIndex (directive c)"
    using dispatch_idle [of c ev h] by simp_all
  from Cons.prems have "list_all noPress evs" by simp
  from Cons.IH [OF step(1) this] step(2) show ?case by simp
qed

text \<open>
  C3. A completed drag is a press that starts a session, any number of pointer-moves and
  further presses, and the pointer-up. Nothing is emitted while the session is active; the
  pointer-up appends exactly one value to what was emitted before the press (the pair of
  \<open>this.oldIndex\<close> and the host element's \<open>oldIndex\<close> property) and ends the session; and
  whatever pointer-ups and pointer-moves follow, until the next press, emit nothing more.
  A pointer-up while no session is active changes nothing at all.
\<close>

theorem one_event_per_completed_drag:
  "(listening c \<and> pressStartsDrag (directive c) e \<and> list_all duringSession evs \<longrightarrow>
      isDragging (directive (run h (MouseDown e event # evs) c)) \<and>
      changeCurrentElIndex (directive (run h (MouseDown e event # evs) c)) =
        changeCurrentElIndex (directive c) \<and>
      changeCurrentElIndex (directive (run h (MouseDown e event # evs @ [MouseUp e']) c)) =
        changeCurrentElIndex (directive c) @
          [\<lparr>eventOldIndex = oldIndex (directive (run h (MouseDown e event # evs) c)),
            eventNewIndex = elementOldIndex e'\<rparr>] \<and>
      \<not> isDragging (directive (run h (MouseDown e event # evs @ [MouseUp e']) c)) \<and>
      (list_all noPress later \<longrightarrow>
         changeCurrentElIndex
           (directive (run h (MouseDown e event # evs @ [MouseUp e'] @ later) c)) =
         changeCurrentElIndex (directive c) @
           [\<lparr>eventOldIndex = oldIndex (directive (run h (MouseDown e event # evs) c)),
             eventNewIndex = elementOldIndex e'\<rparr>])) \<and>
   (\<not> isDragging s \<longrightarrow> onMouseUp h e' s = s)"
proof (intro conjI impI)
  assume "\<not> isDragging s"
  then show "onMouseUp h e' s = s" by (rule up_idle)
next
  assume a: "listening c \<and> pressStartsDrag (directive c) e \<and> list_all duringSession evs"
  let ?c1 = "dispatch h (MouseDown e event) c"
  let ?c2 = "run h evs ?c1"
  let ?c3 = "dispatch h (MouseUp e') ?c2"
  have l1: "listening ?c1" using a by (simp add: dispatch_down_listening)
  have d1: "isDragging (directive ?c1)"
    using a by (simp add: dispatch_down_directive down_starts)
  have e1: "changeCurrentElIndex (directive ?c1) = changeCurrentElIndex (directive c)"
    using a by (simp add: dispatch_down_directive down_emits_nothing)
  have l2: "listening ?c2" using a l1 by (simp add: run_session_listening)
  have d2: "isDragging (directive ?c2)" using a d1 by (simp add: run_session_keeps_dragging)
  have e2: "changeCurrentElIndex (directive ?c2) = changeCurrentElIndex (directive c)"
    using a e1 by (simp add: run_session_emits_nothing)
  have r3: "run h (MouseDown e event # evs @ [MouseUp e']) c = ?c3"
    by (simp add: run_append)
  have e3: "changeCurrentElIndex (directive ?c3) =
      changeCurrentElIndex (directive c) @
        [\<lparr>eventOldIndex = oldIndex (directive ?c2), eventNewIndex = elementOldIndex e'\<rparr>]"
    using l2 d2 e2 by (simp add: dispatch_up_directive up_emits)
  have d3: "\<not> isDragging (directive ?c3)"
    using l2 by (simp add: dispatch_up_directive up_ends)
  show "isDragging (directive (run h (MouseDown e event # evs) c))" using d2 by simp
  show "changeCurrentElIndex (directive (run h (MouseDown e event # evs) c)) =
        changeCurrentElIndex (directive c)"
    using e2 by simp
  show "changeCurrentElIndex (directive (run h (MouseDown e event # evs @ [MouseUp e']) c)) =
        changeCurrentElIndex (directive c) @
          [\<lparr>eventOldIndex = oldIndex (directive (run h (MouseDown e event # evs) c)),
            eventNewIndex = elementOldIndex e'\<rparr>]"
    using r3 e3 by simp
  show "\<not> isDragging (directive (run h (MouseDown e event # evs @ [MouseUp e']) c))"
    using r3 d3 by simp
  assume later: "list_all noPress later"
  have "run h (MouseDown e event # evs @ [MouseUp e'] @ later) c = run h later ?c3"
    by (simp add: run_append)
  moreover have "changeCurrentElIndex (directive (run h later ?c3)) =
      changeCurrentElIndex (directive ?c3)"
    using run_idle [OF d3 later, of h] by simp
  ultimately show "changeCurrentElIndex
           (directive (run h (MouseDown e event # evs @ [MouseUp e'] @ later) c)) =
         changeCurrentElIndex (directive c) @
           [\<lparr>eventOldIndex = oldIndex (directive (run h (MouseDown e event # evs) c)),
             eventNewIndex = elementOldIndex e'\<rparr>]"
    using e3 by simp
qed

theorem one_event_per_completed_drag_witness:
  "listening (listed middleOfThree) \<and>
   pressStartsDrag (directive (listed middleOfThree)) plainEnv \<and>
   list_all duringSession [MouseMove (over (Item 2)) (at 10 110)] \<and>
   list_all noPress [MouseUp plainEnv, MouseMove (over (Item 0)) (at 10 90), MouseUp plainEnv] \<and>
   isDragging (directive (run angular
       (MouseDown plainEnv (at 10 100) # [MouseMove (over (Item 2)) (at 10 110)])
       (listed middleOfThree))) \<and>
   changeCurrentElIndex (directive (run angular
       (MouseDown plainEnv (at 10 100) # [MouseMove (over (Item 2)) (at 10 110)])
       (listed middleOfThree))) = [] \<and>
   length (changeCurrentElIndex (directive (run angular
       (MouseDown plainEnv (at 10 100) # [MouseMove (over (Item 2)) (at 10 110)] @ [MouseUp plainEnv])
       (listed middleOfThree)))) = 1 \<and>
   \<not> isDragging (directive (run angular
       (MouseDown plainEnv (at 10 100) # [MouseMove (over (Item 2)) (at 10 110)] @ [MouseUp plainEnv])
       (listed middleOfThree))) \<and>
   length (changeCurrentElIndex (directive (run angular
       (MouseDown plainEnv (at 10 100) # [MouseMove (over (Item 2)) (at 10 110)] @ [MouseUp plainEnv] @
          [MouseUp plainEnv, MouseMove (over (Item 0)) (at 10 90), MouseUp plainEnv])
       (listed middleOfThree)))) = 1"
proof -
  let ?c = "listed middleOfThree"
  let ?evs = "[MouseMove (over (Item 2)) (at 10 110)]"
  let ?later = "[MouseUp plainEnv, MouseMove (over (Item 0)) (at 10 90), MouseUp plainEnv]"
  have hyp: "listening ?c \<and> pressStartsDrag (directive ?c) plainEnv \<and> list_all duringSession ?evs"
    by (simp add: listed_def middleOfThree_def newDirective_def pressStartsDrag_def falsy_def)
  have later: "list_all noPress ?later" by simp
  have start: "changeCurrentElIndex (directive ?c) = []"
    by (simp add: listed_def middleOfThree_def newDirective_def)
  note inst = one_event_per_completed_drag
    [of ?c plainEnv ?evs angular "at 10 100" plainEnv ?later middleOfThree]
  from inst hyp later start show ?thesis by simp
qed

subsection \<open>Pointer-moves after the session and after the teardown\<close>


lemma move_records_cursor:
  "isDragging s \<Longrightarrow>
   prevX (onMouseMove h e event s) = clientX event \<and>
   prevY (onMouseMove h e event s) = clientY event"
  by (simp add: onMouseMove_def Let_def setStyle_def split: option.split)




subsection \<open>Translation by the cursor delta\<close>

lemma move_sets_left:
  "isDragging s \<Longrightarrow> blockedAxis s \<noteq> Some AxisX \<Longrightarrow>
   style (onMouseMove h e event s) ''left'' = Some (Px (offsetLeft e + (clientX event - prevX s)))"
  by (simp add: move_style Let_def)

lemma move_sets_top:
  "isDragging s \<Longrightarrow> blockedAxis s \<noteq> Some AxisY \<Longrightarrow>
   style (onMouseMove h e event s) ''top'' = Some (Px (offsetTop e + (clientY event - prevY s)))"
  by (simp add: move_style Let_def)

lemma press_records_page_position:
  "pressStartsDrag s e \<Longrightarrow>
   prevX (stateOf (onMouseDown h e event s)) = clientX event + scrollX e \<and>
   prevY (stateOf (onMouseDown h e event s)) = clientY event + scrollY e"
  by (simp add: onMouseDown_pressed press_excludes_throw pressed_def split: option.split)

text \<open>
  C5, as stated, fails for the first pointer-move after a press in a scrolled window. The
  element's \<open>offsetTop\<close> is 200 and the window is scrolled by 100; the pointer is pressed at
  \<open>clientY = 110\<close> and moved to \<open>clientY = 120\<close>. The new \<open>top\<close> is not the previous top plus
  the change in cursor y, 200 + (120 - 110): the press has stored the page coordinate
  \<open>clientY + window.scrollY\<close> in \<open>prevY\<close>, so the scroll offset is subtracted as well.
\<close>

theorem first_move_subtracts_scroll_counterexample:
  "\<not> (style (directive (run angular
          [MouseDown (plainEnv\<lparr>scrollY := 100\<rparr>) (at 10 110),
           MouseMove (plainEnv\<lparr>scrollY := 100, offsetTop := 200\<rparr>) (at 10 120)]
          (listed middleOfThree))) ''top'' = Some (Px (200 + (120 - 110))))"
  by (simp add: listed_def middleOfThree_def newDirective_def plainEnv_def at_def
      dispatch_def onMouseDown_pressed pressStartsDrag_def queryThrows_def falsy_def
      pressed_def move_style Let_def)

text \<open>
  C5, amended. On every pointer-move of an active session, along each unblocked axis the
  element's new \<open>left\<close> is its \<open>offsetLeft\<close> plus the event's \<open>clientX\<close> minus \<open>prevX\<close>, and
  likewise for \<open>top\<close>. After a pointer-move \<open>prevX\<close> is that move's \<open>clientX\<close>, so the
  next move translates the element by the change in cursor x since that move. After the
  press \<open>prevX\<close> is the press position in page coordinates, \<open>clientX + window.scrollX\<close>, so
  the first move sets \<open>left\<close> to \<open>offsetLeft\<close> minus the scroll offset at the press plus the
  change in cursor x since the press.
\<close>

theorem element_translated_by_cursor_delta:
  "(isDragging s \<and> blockedAxis s \<noteq> Some AxisX \<longrightarrow>
      style (onMouseMove h e ev s) ''left'' =
        Some (Px (offsetLeft e + (clientX ev - prevX s))) \<and>
      style (onMouseMove h e2 ev2 (onMouseMove h e1 ev1 s)) ''left'' =
        Some (Px (offsetLeft e2 + (clientX ev2 - clientX ev1)))) \<and>
   (isDragging s \<and> blockedAxis s \<noteq> Some AxisY \<longrightarrow>
      style (onMouseMove h e ev s) ''top'' =
        Some (Px (offsetTop e + (clientY ev - prevY s))) \<and>
      style (onMouseMove h e2 ev2 (onMouseMove h e1 ev1 s)) ''top'' =
        Some (Px (offsetTop e2 + (clientY ev2 - clientY ev1)))) \<and>
   (pressStartsDrag s e0 \<and> blockedAxis s \<noteq> Some AxisX \<longrightarrow>
      style (onMouseMove h e1 ev1 (stateOf (onMouseDown h e0 ev0 s))) ''left'' =
        Some (Px (offsetLeft e1 - scrollX e0 + (clientX ev1 - clientX ev0)))) \<and>
   (pressStartsDrag s e0 \<and> blockedAxis s \<noteq> Some AxisY \<longrightarrow>
      style (onMouseMove h e1 ev1 (stateOf (onMouseDown h e0 ev0 s))) ''top'' =
        Some (Px (offsetTop e1 - scrollY e0 + (clientY ev1 - clientY ev0))))"
proof (intro conjI impI)
  assume a: "isDragging s \<and> blockedAxis s \<noteq> Some AxisX"
  then show "style (onMouseMove h e ev s) ''left'' =
      Some (Px (offsetLeft e + (clientX ev - prevX s)))"
    by (simp add: move_sets_left)
  from a have "isDragging (onMouseMove h e1 ev1 s)"
    and "blockedAxis (onMouseMove h e1 ev1 s) \<noteq> Some AxisX"
    and "prevX (onMouseMove h e1 ev1 s) = clientX ev1"
    by (simp_all add: move_keeps_dragging move_keeps_axis move_records_cursor)
  then show "style (onMouseMove h e2 ev2 (onMouseMove h e1 ev1 s)) ''left'' =
      Some (Px (offsetLeft e2 + (clientX ev2 - clientX ev1)))"
    by (simp add: move_sets_left)
next
  assume a: "isDragging s \<and> blockedAxis s \<noteq> Some AxisY"
  then show "style (onMouseMove h e ev s) ''top'' =
      Some (Px (offsetTop e + (clientY ev - prevY s)))"
    by (simp add: move_sets_top)
  from a have "isDragging (onMouseMove h e1 ev1 s)"
    and "blockedAxis (onMouseMove h e1 ev1 s) \<noteq> Some AxisY"
    and "prevY (onMouseMove h e1 ev1 s) = clientY ev1"
    by (simp_all add: move_keeps_dragging move_keeps_axis move_records_cursor)
  then show "style (onMouseMove h e2 ev2 (onMouseMove h e1 ev1 s)) ''top'' =
      Some (Px (offsetTop e2 + (clientY ev2 - clientY ev1)))"
    by (simp add: move_sets_top)
next
  assume a: "pressStartsDrag s e0 \<and> blockedAxis s \<noteq> Some AxisX"
  let ?p = "stateOf (onMouseDown h e0 ev0 s)"
  from a have "isDragging ?p" and "blockedAxis ?p \<noteq> Some AxisX"
    and "prevX ?p = clientX ev0 + scrollX e0"
    by (simp_all add: down_starts down_keeps_axis press_records_page_position)
  then show "style (onMouseMove h e1 ev1 ?p) ''left'' =
      Some (Px (offsetLeft e1 - scrollX e0 + (clientX ev1 - clientX ev0)))"
    by (simp add: move_sets_left)
next
  assume a: "pressStartsDrag s e0 \<and> blockedAxis s \<noteq> Some AxisY"
  let ?p = "stateOf (onMouseDown h e0 ev0 s)"
  from a have "isDragging ?p" and "blockedAxis ?p \<noteq> Some AxisY"
    and "prevY ?p = clientY ev0 + scrollY e0"
    by (simp_all add: down_starts down_keeps_axis press_records_page_position)
  then show "style (onMouseMove h e1 ev1 ?p) ''top'' =
      Some (Px (offsetTop e1 - scrollY e0 + (clientY ev1 - clientY ev0)))"
    by (simp add: move_sets_top)
qed

theorem element_translated_by_cursor_delta_witness:
  "pressStartsDrag middleOfThree (plainEnv\<lparr>scrollY := 100\<rparr>) \<and>
   blockedAxis middleOfThree \<noteq> Some AxisY \<and>
   style (onMouseMove angular (plainEnv\<lparr>scrollY := 100, offsetTop := 200\<rparr>) (at 10 120)
     (stateOf (onMouseDown angular (plainEnv\<lparr>scrollY := 100\<rparr>) (at 10 110) middleOfThree)))
     ''top'' = Some (Px 110) \<and>
   isDragging (pressed plainEnv (at 10 100) middleOfThree) \<and>
   blockedAxis (pressed plainEnv (at 10 100) middleOfThree) \<noteq> Some AxisX \<and>
   style (onMouseMove angular (plainEnv\<lparr>offsetLeft := 40\<rparr>) (at 25 130)
     (onMouseMove angular plainEnv (at 15 120) (pressed plainEnv (at 10 100) middleOfThree)))
     ''left'' = Some (Px 50)"
proof -
  let ?e0 = "plainEnv\<lparr>scrollY := 100\<rparr>"
  let ?e1 = "plainEnv\<lparr>scrollY := 100, offsetTop := 200\<rparr>"
  let ?p = "pressed plainEnv (at 10 100) middleOfThree"
  have press: "pressStartsDrag middleOfThree ?e0"
    by (simp add: pressStartsDrag_def falsy_def middleOfThree_def newDirective_def)
  have free: "blockedAxis middleOfThree \<noteq> Some AxisY"
    by (simp add: middleOfThree_def newDirective_def)
  have drag: "isDragging ?p" by (simp add: pressed_def)
  have free': "blockedAxis ?p \<noteq> Some AxisX"
    by (simp add: pressed_def middleOfThree_def newDirective_def)
  note first = element_translated_by_cursor_delta
    [of middleOfThree angular ?e1 "at 10 120" ?e1 "at 10 120" ?e1 "at 10 120" ?e0 "at 10 110"]
  note later = element_translated_by_cursor_delta
    [of ?p angular plainEnv "at 15 120" "plainEnv\<lparr>offsetLeft := 40\<rparr>" "at 25 130" plainEnv "at 15 120"
      plainEnv "at 10 100"]
  have a: "style (onMouseMove angular ?e1 (at 10 120)
      (stateOf (onMouseDown angular ?e0 (at 10 110) middleOfThree))) ''top'' =
      Some (Px (offsetTop ?e1 - scrollY ?e0 + (clientY (at 10 120) - clientY (at 10 110))))"
    using first press free by blast
  have b: "style (onMouseMove angular (plainEnv\<lparr>offsetLeft := 40\<rparr>) (at 25 130)
      (onMouseMove angular plainEnv (at 15 120) ?p)) ''left'' =
      Some (Px (offsetLeft (plainEnv\<lparr>offsetLeft := 40\<rparr>) + (clientX (at 25 130) - clientX (at 15 120))))"
    using later drag free' by blast
  from a b press free drag free' show ?thesis by (simp add: at_def plainEnv_def)
qed

end
